theory Spec2Isabelle
  imports Complex_Main "HOL-Library.Word" "HOL-Library.Multiset"
begin

unbundle bit_operations_syntax

section \<open>PanMatrix: RAID engine, scheduler and metadata catalog\<close>

text \<open>
  A shallow embedding of \<^verbatim>\<open>src/raid/engine.go\<close>, \<^verbatim>\<open>src/scheduler/raid_scheduler.go\<close>
  and \<^verbatim>\<open>src/metaddata/manager.go\<close>.

  Conventions.
  \<^item> A Go \<^verbatim>\<open>[]byte\<close> is a list of 8-bit words. A nil slice and an empty slice are both
    \<open>[]\<close>; where the source tells them apart (\<^verbatim>\<open>strip != nil\<close>) the model uses an
    \<open>option\<close>.
  \<^item> A function that returns \<^verbatim>\<open>(T, error)\<close> returns \<open>error + T\<close>, a function that returns
    \<^verbatim>\<open>error\<close> returns \<open>error option\<close> (\<open>None\<close> is \<^verbatim>\<open>nil\<close>). A run-time panic (index out
    of range, integer division by zero, method call on a nil interface) is the error
    \<open>Panic\<close>.
  \<^item> Loop counters and lengths are \<open>nat\<close>: in the source they are \<^verbatim>\<open>int\<close> values that
    start at 0 and only grow, far from the 64-bit bound.
  \<^item> The goroutines of one stripe touch pairwise distinct blobs, and the parent waits for
    all of them; the model runs them one after the other in index order.
  \<^item> Go leaves the order of \<^verbatim>\<open>for name := range m\<close> over a map unspecified and varies it
    from loop to loop. Every function that ranges over a map takes the order of that loop
    as an explicit argument: a list of the keys of the map. A function that ranges several
    times (a stripe writer or reader with its calls of \<^verbatim>\<open>selectDriverForStrip\<close>,
    \<^verbatim>\<open>WriteFile\<close>, \<^verbatim>\<open>ReadFile\<close>) takes one order and uses it for all of them, which is
    one of the runs that Go allows.
\<close>

subsection \<open>Bytes, errors, slices\<close>

type_synonym byte = "8 word"

datatype error =
    Panic
  | DriverError
  | UploadFailed string error
  | AllDriversFailed
  | MultipleDriversFailed
  | TooManyMirrorFailures
  | StripeReadError
  | MultipleBlocksLost
  | RecoveryNotImplemented
  | AllBlocksMissing
  | MirrorPairLost nat
  | WriteStripeFailed int error
  | ReadStripeFailed nat error
  | FileNotExist string
  | ReadMetadataFailed
  | ParseMetadataFailed

text \<open>\<^verbatim>\<open>data[start:end]\<close>: panics unless \<open>start \<le> end \<le> len(data)\<close>.\<close>

definition slice :: "'a list \<Rightarrow> nat \<Rightarrow> nat \<Rightarrow> error + 'a list" where
  "slice xs start end =
     (if start \<le> end \<and> end \<le> length xs then Inr (take (end - start) (drop start xs))
      else Inl Panic)"

text \<open>Running a loop body over the indices, stopping at the first panic.\<close>

primrec for_each :: "('i \<Rightarrow> 's \<Rightarrow> error + 's) \<Rightarrow> 'i list \<Rightarrow> 's \<Rightarrow> error + 's" where
  "for_each body [] s = Inr s"
| "for_each body (i # is) s =
     (case body i s of Inl e \<Rightarrow> Inl e | Inr s' \<Rightarrow> for_each body is s')"

subsection \<open>RAID 5 parity (\<^verbatim>\<open>calculateParity\<close>)\<close>

text \<open>The first loop of \<^verbatim>\<open>calculateParity\<close>: the length of the longest strip.\<close>

definition maxLen :: "byte list list \<Rightarrow> nat" where
  "maxLen strips = fold (\<lambda>strip m. if length strip > m then length strip else m) strips 0"

text \<open>
  The inner loop \<^verbatim>\<open>for i := 0; i < len(strip); i++ { parity[i] ^= strip[i] }\<close>; the
  index expression \<^verbatim>\<open>parity[i]\<close> panics when \<open>i\<close> is out of range.
\<close>

definition xor_byte :: "byte list \<Rightarrow> nat \<Rightarrow> byte list \<Rightarrow> error + byte list" where
  "xor_byte strip i parity =
     (if i < length parity \<and> i < length strip
      then Inr (parity[i := (parity ! i) XOR (strip ! i)])
      else Inl Panic)"

definition xor_strip :: "byte list \<Rightarrow> byte list \<Rightarrow> error + byte list" where
  "xor_strip strip parity = for_each (xor_byte strip) [0..<length strip] parity"

definition calculateParity :: "byte list list \<Rightarrow> error + byte list" where
  "calculateParity strips =
     (if length strips = 0 then Inr []
      else for_each xor_strip strips (replicate (maxLen strips) 0))"








subsection \<open>Storage drivers\<close>

text \<open>
  Modelled from the spec: the package \<^verbatim>\<open>drivers\<close> (the interface \<^verbatim>\<open>StorageDriver\<close> and its
  implementations) is not among the sources. The model is the simulated driver of the
  spec's scenarios: it keeps the uploaded blobs in a map from storage id to bytes,
  an upload overwrites, a download returns exactly the bytes uploaded under the id and fails
  when there are none, and failures of uploads and of downloads can be injected.
\<close>

record driver =
  blobs :: "string \<rightharpoonup> byte list"
  put_ok :: bool
  get_ok :: bool

definition UploadChunk :: "driver \<Rightarrow> byte list \<Rightarrow> string \<Rightarrow> error + driver" where
  "UploadChunk d bytes storage_id =
     (if put_ok d then Inr (d\<lparr>blobs := (blobs d)(storage_id \<mapsto> bytes)\<rparr>)
      else Inl DriverError)"

definition DownloadChunk :: "driver \<Rightarrow> string \<Rightarrow> error + byte list" where
  "DownloadChunk d storage_id =
     (if get_ok d
      then (case blobs d storage_id of None \<Rightarrow> Inl DriverError | Some bytes \<Rightarrow> Inr bytes)
      else Inl DriverError)"

subsection \<open>Formatting (\<^verbatim>\<open>fmt.Sprintf\<close> with \<^verbatim>\<open>%s\<close> and \<^verbatim>\<open>%d\<close>)\<close>

definition digit :: "nat \<Rightarrow> char" where
  "digit n = ''0123456789'' ! n"

function fmt_nat :: "nat \<Rightarrow> string" where
  "fmt_nat n = (if n < 10 then [digit n] else fmt_nat (n div 10) @ [digit (n mod 10)])"
  by pat_completeness auto
termination
  by (relation "measure id") auto

declare fmt_nat.simps [simp del]

definition fmt_int :: "int \<Rightarrow> string" where
  "fmt_int i = (if i < 0 then CHR ''-'' # fmt_nat (nat (- i)) else fmt_nat (nat i))"

text \<open>\<^verbatim>\<open>fmt.Sprintf("file_%s_%d", fileName, time.Now().UnixNano())\<close>; the clock is an argument.\<close>

definition generateFileID :: "int \<Rightarrow> string \<Rightarrow> string" where
  "generateFileID now fileName = ''file_'' @ fileName @ ''_'' @ fmt_int now"

definition storageID_RAID0 :: "string \<Rightarrow> nat \<Rightarrow> nat \<Rightarrow> string" where
  "storageID_RAID0 fileID stripeIndex stripIndex =
     fileID @ ''_s'' @ fmt_nat stripeIndex @ ''_st'' @ fmt_nat stripIndex"

definition storageID_RAID1 :: "string \<Rightarrow> nat \<Rightarrow> string \<Rightarrow> string" where
  "storageID_RAID1 fileID stripeIndex name = fileID @ ''_s'' @ fmt_nat stripeIndex @ ''_'' @ name"

definition storageID_RAID5 :: "string \<Rightarrow> nat \<Rightarrow> string \<Rightarrow> string \<Rightarrow> string" where
  "storageID_RAID5 fileID stripeIndex stripType driverName =
     fileID @ ''_s'' @ fmt_nat stripeIndex @ ''_'' @ stripType @ ''_'' @ driverName"

definition storageID_RAID10 :: "string \<Rightarrow> nat \<Rightarrow> nat \<Rightarrow> string \<Rightarrow> string" where
  "storageID_RAID10 fileID stripeIndex pairIndex name =
     fileID @ ''_s'' @ fmt_nat stripeIndex @ ''_pair'' @ fmt_nat pairIndex @ ''_'' @ name"

subsection \<open>The controller\<close>

text \<open>
  \<open>drivers\<close> maps a driver name to the current state of that driver. \<open>stripeWidth\<close> is the
  number of drivers at construction. The mutex and \<open>parityRotation\<close> (never read or
  written) are left out.
\<close>

record RAIDController =
  level :: int
  drivers :: "string \<rightharpoonup> driver"
  stripeSize :: int
  stripeWidth :: nat

datatype config_error =
    RAID0_needs_2 | RAID1_needs_2 | RAID5_needs_3 | RAID10_needs_even_4 | Unsupported_level

definition NewRAIDController ::
  "int \<Rightarrow> (string \<rightharpoonup> driver) \<Rightarrow> int \<Rightarrow> config_error + RAIDController" where
  "NewRAIDController lvl ds stripe_size =
     (let driverCount = card (dom ds);
          rc = \<lparr>level = lvl, drivers = ds, stripeSize = stripe_size, stripeWidth = driverCount\<rparr>
      in if lvl = 0 then (if driverCount < 2 then Inl RAID0_needs_2 else Inr rc)
         else if lvl = 1 then (if driverCount < 2 then Inl RAID1_needs_2 else Inr rc)
         else if lvl = 5 then (if driverCount < 3 then Inl RAID5_needs_3 else Inr rc)
         else if lvl = 10 then
           (if driverCount < 4 \<or> driverCount mod 2 \<noteq> 0 then Inl RAID10_needs_even_4
            else Inr rc)
         else Inl Unsupported_level)"

text \<open>
  \<open>range_order ds ks\<close>: the list \<open>ks\<close> is one order in which
  \<^verbatim>\<open>for name := range rc.drivers\<close> can yield the keys of \<open>ds\<close>.
\<close>

definition range_order :: "('k \<rightharpoonup> 'v) \<Rightarrow> 'k list \<Rightarrow> bool" where
  "range_order ds ks \<longleftrightarrow> distinct ks \<and> set ks = dom ds"

text \<open>
  \<^verbatim>\<open>selectDriverForStrip\<close> and \<^verbatim>\<open>selectDriverByIndex\<close>: \<open>driverNames\<close> is the slice that
  the range loop over \<^verbatim>\<open>rc.drivers\<close> fills. \<^verbatim>\<open>%\<close> by a zero length and an index past the
  end panic.
\<close>

definition selectDriverForStrip :: "string list \<Rightarrow> nat \<Rightarrow> nat \<Rightarrow> nat \<Rightarrow> error + string" where
  "selectDriverForStrip driverNames width stripeIndex stripIndex =
     (let totalIndex = stripeIndex * width + stripIndex
      in if length driverNames = 0 then Inl Panic
         else Inr (driverNames ! (totalIndex mod length driverNames)))"

definition selectDriverByIndex :: "string list \<Rightarrow> nat \<Rightarrow> error + string" where
  "selectDriverByIndex driverNames index =
     (if index \<ge> length driverNames
      then (if length driverNames = 0 then Inl Panic
            else Inr (driverNames ! (index mod length driverNames)))
      else Inr (driverNames ! index))"

text \<open>
  \<^verbatim>\<open>createMirrorPairs\<close>: the loop \<^verbatim>\<open>for i := 0; i < len(driverNames); i += 2\<close> pairs
  \<open>driverNames[i]\<close> with \<open>driverNames[i+1]\<close> and drops an unpaired last name.
\<close>

fun createMirrorPairs :: "string list \<Rightarrow> string list list" where
  "createMirrorPairs (a # b # driverNames) = [a, b] # createMirrorPairs driverNames"
| "createMirrorPairs driverNames = []"

text \<open>
  \<^verbatim>\<open>int(math.Ceil(float64(a) / float64(b)))\<close> for \<open>b > 0\<close>. The float64 quotient of two
  integers below \<open>2^53\<close> is rounded to nearest, and it cannot round down to
  \<open>a div b\<close> unless \<open>b\<close> divides \<open>a\<close>, so the result is the integer ceiling.
  For \<open>b = 0\<close> the quotient is infinite or NaN; the callers below do not use the value then.
\<close>

definition ceil_div :: "nat \<Rightarrow> nat \<Rightarrow> nat" where
  "ceil_div a b = (a + b - 1) div b"


subsection \<open>Writing a stripe\<close>

text \<open>
  The state of the fan-out of one stripe: the drivers, and the errors sent to the buffered
  channel \<^verbatim>\<open>errCh\<close> so far.
\<close>

type_synonym fanout = "(string \<rightharpoonup> driver) \<times> error list"

text \<open>
  The upload at the end of every goroutine: \<^verbatim>\<open>driver := rc.drivers[name]\<close>, then
  \<^verbatim>\<open>driver.UploadChunk(ctx, bytes, storageID)\<close>; a failed upload sends an error to
  \<^verbatim>\<open>errCh\<close>. A name that is not a key gives a nil interface, and the call panics.
\<close>

definition put_block :: "string \<Rightarrow> byte list \<Rightarrow> string \<Rightarrow> fanout \<Rightarrow> error + fanout" where
  "put_block name bytes storageID st =
     (case fst st name of
        None \<Rightarrow> Inl Panic
      | Some d \<Rightarrow>
          (case UploadChunk d bytes storageID of
             Inl err \<Rightarrow> Inr (fst st, snd st @ [UploadFailed name err])
           | Inr d' \<Rightarrow> Inr ((fst st)(name \<mapsto> d'), snd st)))"

text \<open>
  \<open>upload_succeeds ds name bytes storageID\<close>: the call
  \<^verbatim>\<open>rc.drivers[name].UploadChunk(ctx, bytes, storageID)\<close> returns no error. \<open>put_ok_at\<close>
  is the same fact read off the driver's state.
\<close>

definition upload_succeeds ::
  "(string \<rightharpoonup> driver) \<Rightarrow> string \<Rightarrow> byte list \<Rightarrow> string \<Rightarrow> bool" where
  "upload_succeeds ds name bytes storageID =
     (case ds name of
        None \<Rightarrow> False
      | Some d \<Rightarrow> (case UploadChunk d bytes storageID of Inl err \<Rightarrow> False | Inr d' \<Rightarrow> True))"

definition put_ok_at :: "(string \<rightharpoonup> driver) \<Rightarrow> string \<Rightarrow> bool" where
  "put_ok_at ds name = (case ds name of None \<Rightarrow> False | Some d \<Rightarrow> put_ok d)"


text \<open>
  RAID 0. \<open>raid0_stripData\<close> is the slice a goroutine uploads: \<open>None\<close> is the early return
  \<^verbatim>\<open>if start >= dataLen { return }\<close>.
\<close>

definition raid0_stripData :: "byte list \<Rightarrow> nat \<Rightarrow> nat \<Rightarrow> (error + byte list) option" where
  "raid0_stripData data stripSize stripIndex =
     (let dataLen = length data;
          start = stripIndex * stripSize;
          end = start + stripSize;
          end = (if end > dataLen then dataLen else end)
      in if start \<ge> dataLen then None else Some (slice data start end))"


definition raid0_put ::
  "string list \<Rightarrow> nat \<Rightarrow> nat \<Rightarrow> byte list \<Rightarrow> string \<Rightarrow> nat \<Rightarrow> nat \<Rightarrow> fanout \<Rightarrow> error + fanout" where
  "raid0_put ks width stripeIndex data fileID stripSize stripIndex st =
     (case raid0_stripData data stripSize stripIndex of
        None \<Rightarrow> Inr st
      | Some (Inl e) \<Rightarrow> Inl e
      | Some (Inr stripData) \<Rightarrow>
          (case selectDriverForStrip ks width stripeIndex stripIndex of
             Inl e \<Rightarrow> Inl e
           | Inr driverName \<Rightarrow>
               put_block driverName stripData
                 (storageID_RAID0 fileID stripeIndex stripIndex) st))"

text \<open>
  Every stripe writer returns the error (or \<open>None\<close> for \<^verbatim>\<open>nil\<close>) together with the
  controller after the uploads. After a panic the process is gone; the model returns
  \<open>Some Panic\<close> and the controller as it was.
\<close>

definition writeRAID0Stripe ::
  "string list \<Rightarrow> RAIDController \<Rightarrow> nat \<Rightarrow> byte list \<Rightarrow> string \<Rightarrow> error option \<times> RAIDController" where
  "writeRAID0Stripe ks rc stripeIndex data fileID =
     (let dataLen = length data;
          stripSize = ceil_div dataLen (stripeWidth rc)
      in case for_each (raid0_put ks (stripeWidth rc) stripeIndex data fileID stripSize)
                [0..<stripeWidth rc] (drivers rc, []) of
           Inl e \<Rightarrow> (Some e, rc)
         | Inr (ds, errCh) \<Rightarrow>
             (case errCh of
                [] \<Rightarrow> (None, rc\<lparr>drivers := ds\<rparr>)
              | err # _ \<Rightarrow> (Some err, rc\<lparr>drivers := ds\<rparr>)))"

text \<open>
  RAID 1. The loop ranges over \<^verbatim>\<open>rc.drivers\<close> in the order \<open>ks\<close>, so
  \<^verbatim>\<open>len(rc.drivers)\<close>, the number of keys, is the length of \<open>ks\<close>;
  \<^verbatim>\<open>len(errCh)\<close> after \<^verbatim>\<open>close\<close> is the number of errors still buffered.
\<close>

definition raid1_put :: "nat \<Rightarrow> byte list \<Rightarrow> string \<Rightarrow> string \<Rightarrow> fanout \<Rightarrow> error + fanout" where
  "raid1_put stripeIndex data fileID name st =
     put_block name data (storageID_RAID1 fileID stripeIndex name) st"

definition writeRAID1Stripe ::
  "string list \<Rightarrow> RAIDController \<Rightarrow> nat \<Rightarrow> byte list \<Rightarrow> string \<Rightarrow> error option \<times> RAIDController" where
  "writeRAID1Stripe ks rc stripeIndex data fileID =
     (case for_each (raid1_put stripeIndex data fileID) ks (drivers rc, []) of
        Inl e \<Rightarrow> (Some e, rc)
      | Inr (ds, errCh) \<Rightarrow>
          (let successCount = int (length ks) - int (length errCh)
           in if successCount = 0 then (Some AllDriversFailed, rc\<lparr>drivers := ds\<rparr>)
              else (None, rc\<lparr>drivers := ds\<rparr>)))"

text \<open>
  RAID 5. \<^verbatim>\<open>splitDataForRAID5\<close>: \<^verbatim>\<open>make([][]byte, rc.stripeWidth-1)\<close> panics for width 0
  and the division \<^verbatim>\<open>len(data) / (rc.stripeWidth - 1)\<close> panics for width 1.
\<close>

definition raid5_strip :: "byte list \<Rightarrow> nat \<Rightarrow> nat \<Rightarrow> nat \<Rightarrow> error + byte list" where
  "raid5_strip data width stripSize i =
     (let start = i * stripSize;
          end = start + stripSize;
          end = (if i = width - 2 then length data else end)
      in slice data start end)"

primrec collect :: "('i \<Rightarrow> error + 'a) \<Rightarrow> 'i list \<Rightarrow> error + 'a list" where
  "collect f [] = Inr []"
| "collect f (i # is) =
     (case f i of
        Inl e \<Rightarrow> Inl e
      | Inr x \<Rightarrow> (case collect f is of Inl e \<Rightarrow> Inl e | Inr xs \<Rightarrow> Inr (x # xs)))"

definition splitDataForRAID5 :: "nat \<Rightarrow> byte list \<Rightarrow> error + byte list list" where
  "splitDataForRAID5 width data =
     (if width < 2 then Inl Panic
      else let stripSize = length data div (width - 1)
           in collect (raid5_strip data width stripSize) [0..<width - 1])"


text \<open>
  What the goroutine of \<open>stripIndex\<close> uploads: the kind (\<^verbatim>\<open>"parity"\<close> or \<^verbatim>\<open>"data"\<close>) and
  the bytes; a block without bytes is not uploaded.
\<close>

definition raid5_block ::
  "byte list list \<Rightarrow> byte list \<Rightarrow> nat \<Rightarrow> nat \<Rightarrow> string \<times> byte list" where
  "raid5_block dataStrips parityStrip parityDriverIndex stripIndex =
     (if stripIndex = parityDriverIndex then (''parity'', parityStrip)
      else let dataIndex = (if stripIndex > parityDriverIndex then stripIndex - 1 else stripIndex)
           in (''data'', if dataIndex < length dataStrips then dataStrips ! dataIndex else []))"

definition raid5_put ::
  "string list \<Rightarrow> nat \<Rightarrow> string \<Rightarrow> byte list list \<Rightarrow> byte list \<Rightarrow> nat \<Rightarrow> nat \<Rightarrow> fanout
     \<Rightarrow> error + fanout" where
  "raid5_put ks stripeIndex fileID dataStrips parityStrip parityDriverIndex stripIndex st =
     (let (stripType, stripData) = raid5_block dataStrips parityStrip parityDriverIndex stripIndex
      in if length stripData = 0 then Inr st
         else (case selectDriverByIndex ks stripIndex of
                 Inl e \<Rightarrow> Inl e
               | Inr driverName \<Rightarrow>
                   put_block driverName stripData
                     (storageID_RAID5 fileID stripeIndex stripType driverName) st))"

definition writeRAID5Stripe ::
  "string list \<Rightarrow> RAIDController \<Rightarrow> nat \<Rightarrow> byte list \<Rightarrow> string \<Rightarrow> error option \<times> RAIDController" where
  "writeRAID5Stripe ks rc stripeIndex data fileID =
     (case splitDataForRAID5 (stripeWidth rc) data of
        Inl e \<Rightarrow> (Some e, rc)
      | Inr dataStrips \<Rightarrow>
          (case calculateParity dataStrips of
             Inl e \<Rightarrow> (Some e, rc)
           | Inr parityStrip \<Rightarrow>
               (let parityDriverIndex = stripeIndex mod stripeWidth rc
                in case for_each
                          (raid5_put ks stripeIndex fileID dataStrips parityStrip parityDriverIndex)
                          [0..<stripeWidth rc] (drivers rc, []) of
                     Inl e \<Rightarrow> (Some e, rc)
                   | Inr (ds, errCh) \<Rightarrow>
                       (if length errCh > 1 then (Some MultipleDriversFailed, rc\<lparr>drivers := ds\<rparr>)
                        else (None, rc\<lparr>drivers := ds\<rparr>)))))"

text \<open>
  RAID 10. \<open>mirrorPairs\<close> comes from one range loop over \<^verbatim>\<open>rc.drivers\<close>, in the order
  \<open>ks\<close>. \<^verbatim>\<open>len(data) / stripsPerPair\<close> panics when there is no pair. The goroutines
  read the loop variable \<^verbatim>\<open>pairIndex\<close>; the model gives each of them the value of its
  own iteration.
\<close>

definition raid10_pair ::
  "nat \<Rightarrow> byte list \<Rightarrow> string \<Rightarrow> nat \<Rightarrow> nat \<Rightarrow> (nat \<times> string list) \<Rightarrow> fanout \<Rightarrow> error + fanout" where
  "raid10_pair stripeIndex data fileID stripsPerPair stripSize ip st =
     (let pairIndex = fst ip; pair = snd ip;
          start = pairIndex * stripSize;
          end = start + stripSize;
          end = (if pairIndex = stripsPerPair - 1 then length data else end)
      in case slice data start end of
           Inl e \<Rightarrow> Inl e
         | Inr pairData \<Rightarrow>
             for_each (\<lambda>name. put_block name pairData
                                (storageID_RAID10 fileID stripeIndex pairIndex name))
               pair st)"

definition writeRAID10Stripe ::
  "string list \<Rightarrow> RAIDController \<Rightarrow> nat \<Rightarrow> byte list \<Rightarrow> string \<Rightarrow> error option \<times> RAIDController" where
  "writeRAID10Stripe ks rc stripeIndex data fileID =
     (let mirrorPairs = createMirrorPairs ks;
          stripsPerPair = length mirrorPairs
      in if stripsPerPair = 0 then (Some Panic, rc)
         else let stripSize = length data div stripsPerPair
              in case for_each (raid10_pair stripeIndex data fileID stripsPerPair stripSize)
                        (zip [0..<stripsPerPair] mirrorPairs) (drivers rc, []) of
                   Inl e \<Rightarrow> (Some e, rc)
                 | Inr (ds, errCh) \<Rightarrow>
                     (if length errCh > stripsPerPair
                      then (Some TooManyMirrorFailures, rc\<lparr>drivers := ds\<rparr>)
                      else (None, rc\<lparr>drivers := ds\<rparr>)))"


subsection \<open>Reading a stripe\<close>

text \<open>
  The download of a read goroutine: \<^verbatim>\<open>driver := rc.drivers[name]\<close>, then
  \<^verbatim>\<open>driver.DownloadChunk(ctx, storageID)\<close>. The outer \<open>Inl\<close> is the panic of a call on a
  nil interface, the inner sum is what the driver returns.
\<close>

definition get_block ::
  "(string \<rightharpoonup> driver) \<Rightarrow> string \<Rightarrow> string \<Rightarrow> error + (error + byte list)" where
  "get_block ds name storageID =
     (case ds name of None \<Rightarrow> Inl Panic | Some d \<Rightarrow> Inr (DownloadChunk d storageID))"

text \<open>
  \<open>strips\<close> is \<^verbatim>\<open>make([][]byte, rc.stripeWidth)\<close>: \<open>None\<close> is the nil entry of a block that
  was not downloaded.
\<close>

type_synonym gather = "byte list option list \<times> error list"

definition raid0_get ::
  "string list \<Rightarrow> RAIDController \<Rightarrow> nat \<Rightarrow> string \<Rightarrow> nat \<Rightarrow> gather \<Rightarrow> error + gather" where
  "raid0_get ks rc stripeIndex fileID stripIndex st =
     (case selectDriverForStrip ks (stripeWidth rc) stripeIndex stripIndex of
        Inl e \<Rightarrow> Inl e
      | Inr driverName \<Rightarrow>
          (case get_block (drivers rc) driverName
                  (storageID_RAID0 fileID stripeIndex stripIndex) of
             Inl e \<Rightarrow> Inl e
           | Inr (Inl err) \<Rightarrow> Inr (fst st, snd st @ [err])
           | Inr (Inr data) \<Rightarrow> Inr ((fst st)[stripIndex := Some data], snd st)))"

definition readRAID0Stripe ::
  "string list \<Rightarrow> RAIDController \<Rightarrow> nat \<Rightarrow> string \<Rightarrow> error + byte list" where
  "readRAID0Stripe ks rc stripeIndex fileID =
     (case for_each (raid0_get ks rc stripeIndex fileID) [0..<stripeWidth rc]
             (replicate (stripeWidth rc) None, []) of
        Inl e \<Rightarrow> Inl e
      | Inr (strips, errCh) \<Rightarrow>
          (if length errCh > 0 then Inl StripeReadError
           else Inr (concat (map (\<lambda>strip. case strip of None \<Rightarrow> [] | Some b \<Rightarrow> b) strips))))"

text \<open>RAID 5: \<^verbatim>\<open>mergeRAID5Strips\<close>, \<^verbatim>\<open>recoverRAID5Stripe\<close> and \<^verbatim>\<open>readRAID5Stripe\<close>.\<close>

definition mergeRAID5Strips :: "byte list option list \<Rightarrow> nat \<Rightarrow> error + byte list" where
  "mergeRAID5Strips strips stripeIndex =
     (if length strips = 0 then Inl Panic
      else let parityIndex = stripeIndex mod length strips
           in Inr (concat (map (\<lambda>i. if i \<noteq> parityIndex
                                      then (case strips ! i of None \<Rightarrow> [] | Some b \<Rightarrow> b)
                                      else [])
                             [0..<length strips])))"

definition recoverRAID5Stripe ::
  "byte list option list \<Rightarrow> nat \<Rightarrow> nat \<Rightarrow> error + byte list" where
  "recoverRAID5Stripe strips failedIndex stripeIndex =
     (if length strips = 0 then Inl Panic
      else let parityIndex = stripeIndex mod length strips
           in if failedIndex = parityIndex then mergeRAID5Strips strips stripeIndex
              else Inl RecoveryNotImplemented)"

type_synonym gather5 = "byte list option list \<times> nat list"

definition raid5_get ::
  "string list \<Rightarrow> RAIDController \<Rightarrow> nat \<Rightarrow> string \<Rightarrow> nat \<Rightarrow> gather5 \<Rightarrow> error + gather5" where
  "raid5_get ks rc stripeIndex fileID stripIndex st =
     (case selectDriverByIndex ks stripIndex of
        Inl e \<Rightarrow> Inl e
      | Inr driverName \<Rightarrow>
          (let parityDriverIndex = stripeIndex mod stripeWidth rc;
               stripType = (if stripIndex = parityDriverIndex then ''parity'' else ''data'')
           in case get_block (drivers rc) driverName
                     (storageID_RAID5 fileID stripeIndex stripType driverName) of
                Inl e \<Rightarrow> Inl e
              | Inr (Inl err) \<Rightarrow> Inr (fst st, snd st @ [stripIndex])
              | Inr (Inr data) \<Rightarrow> Inr ((fst st)[stripIndex := Some data], snd st)))"

definition readRAID5Stripe ::
  "string list \<Rightarrow> RAIDController \<Rightarrow> nat \<Rightarrow> string \<Rightarrow> error + byte list" where
  "readRAID5Stripe ks rc stripeIndex fileID =
     (case for_each (raid5_get ks rc stripeIndex fileID) [0..<stripeWidth rc]
             (replicate (stripeWidth rc) None, []) of
        Inl e \<Rightarrow> Inl e
      | Inr (strips, failedDrivers) \<Rightarrow>
          (if length failedDrivers = 0 then mergeRAID5Strips strips stripeIndex
           else if length failedDrivers = 1
           then recoverRAID5Stripe strips (failedDrivers ! 0) stripeIndex
           else Inl MultipleBlocksLost))"

text \<open>
  Modelled from the spec: \<^verbatim>\<open>readRAID1Stripe\<close> and \<^verbatim>\<open>readRAID10Stripe\<close> are called by
  \<^verbatim>\<open>ReadFile\<close> and defined nowhere in the sources. The spec (section 4.3): RAID 1 returns
  the payload from any successful block and is unrecoverable iff all blocks are missing;
  RAID 10 picks, for each pair, any surviving member's block and is unrecoverable iff both
  members of a pair are missing. The storage ids are those of the writers.
\<close>

definition survivors ::
  "(string \<rightharpoonup> driver) \<Rightarrow> (string \<Rightarrow> string) \<Rightarrow> string list \<Rightarrow> byte list list" where
  "survivors ds sid names =
     concat (map (\<lambda>name. case get_block ds name (sid name) of
                            Inr (Inr data) \<Rightarrow> [data]
                          | _ \<Rightarrow> []) names)"

definition readRAID1Stripe ::
  "string list \<Rightarrow> RAIDController \<Rightarrow> nat \<Rightarrow> string \<Rightarrow> error + byte list" where
  "readRAID1Stripe ks rc stripeIndex fileID =
     (case survivors (drivers rc) (storageID_RAID1 fileID stripeIndex) ks of
        [] \<Rightarrow> Inl AllBlocksMissing
      | data # _ \<Rightarrow> Inr data)"

definition raid10_get ::
  "RAIDController \<Rightarrow> nat \<Rightarrow> string \<Rightarrow> (nat \<times> string list) \<Rightarrow> error + byte list" where
  "raid10_get rc stripeIndex fileID ip =
     (case survivors (drivers rc) (storageID_RAID10 fileID stripeIndex (fst ip)) (snd ip) of
        [] \<Rightarrow> Inl (MirrorPairLost (fst ip))
      | data # _ \<Rightarrow> Inr data)"

definition readRAID10Stripe ::
  "string list \<Rightarrow> RAIDController \<Rightarrow> nat \<Rightarrow> string \<Rightarrow> error + byte list" where
  "readRAID10Stripe ks rc stripeIndex fileID =
     (let mirrorPairs = createMirrorPairs ks
      in case collect (raid10_get rc stripeIndex fileID)
                (zip [0..<length mirrorPairs] mirrorPairs) of
           Inl e \<Rightarrow> Inl e
         | Inr chunks \<Rightarrow> Inr (concat chunks))"

subsection \<open>\<^verbatim>\<open>WriteFile\<close> and \<^verbatim>\<open>ReadFile\<close>\<close>

text \<open>
  \<^verbatim>\<open>stripeCount := int(math.Ceil(float64(fileSize) / float64(rc.stripeSize)))\<close>. For a
  negative stripe size the quotient is at most 0 and the loop does not run. For stripe
  size 0 the quotient is infinite or NaN and Go leaves its conversion to \<^verbatim>\<open>int\<close> to the
  implementation; the model takes 0 there, and no theorem below uses that case.
\<close>

definition stripeCount_of :: "nat \<Rightarrow> int \<Rightarrow> nat" where
  "stripeCount_of fileSize stripe_size =
     (if stripe_size > 0 then ceil_div fileSize (nat stripe_size) else 0)"

text \<open>The \<^verbatim>\<open>switch rc.level\<close> of \<^verbatim>\<open>WriteFile\<close>; it has no default case.\<close>

definition writeStripe ::
  "string list \<Rightarrow> RAIDController \<Rightarrow> nat \<Rightarrow> byte list \<Rightarrow> string \<Rightarrow> error option \<times> RAIDController" where
  "writeStripe ks rc stripeIndex stripeData fileID =
     (if level rc = 0 then writeRAID0Stripe ks rc stripeIndex stripeData fileID
      else if level rc = 1 then writeRAID1Stripe ks rc stripeIndex stripeData fileID
      else if level rc = 5 then writeRAID5Stripe ks rc stripeIndex stripeData fileID
      else if level rc = 10 then writeRAID10Stripe ks rc stripeIndex stripeData fileID
      else (None, rc))"

primrec write_stripes ::
  "string list \<Rightarrow> byte list \<Rightarrow> string \<Rightarrow> nat list \<Rightarrow> RAIDController \<Rightarrow> error option \<times> RAIDController" where
  "write_stripes ks data fileID [] rc = (None, rc)"
| "write_stripes ks data fileID (stripeIndex # rest) rc =
     (let fileSize = length data;
          start = stripeIndex * nat (stripeSize rc);
          end = start + nat (stripeSize rc);
          end = (if end > fileSize then fileSize else end)
      in case slice data start end of
           Inl e \<Rightarrow> (Some e, rc)
         | Inr stripeData \<Rightarrow>
             (case writeStripe ks rc stripeIndex stripeData fileID of
                (Some err, rc') \<Rightarrow> (Some (WriteStripeFailed (level rc) err), rc')
              | (None, rc') \<Rightarrow> write_stripes ks data fileID rest rc'))"

definition WriteFile ::
  "string list \<Rightarrow> RAIDController \<Rightarrow> int \<Rightarrow> string \<Rightarrow> byte list \<Rightarrow> (error + string) \<times> RAIDController" where
  "WriteFile ks rc now fileName data =
     (let fileID = generateFileID now fileName;
          fileSize = length data;
          stripeCount = stripeCount_of fileSize (stripeSize rc)
      in case write_stripes ks data fileID [0..<stripeCount] rc of
           (Some err, rc') \<Rightarrow> (Inl err, rc')
         | (None, rc') \<Rightarrow> (Inr fileID, rc'))"

text \<open>The \<^verbatim>\<open>switch rc.level\<close> of \<^verbatim>\<open>ReadFile\<close>; without a default case the stripe is nil.\<close>

definition readStripe ::
  "string list \<Rightarrow> RAIDController \<Rightarrow> nat \<Rightarrow> string \<Rightarrow> error + byte list" where
  "readStripe ks rc stripeIndex fileID =
     (if level rc = 0 then readRAID0Stripe ks rc stripeIndex fileID
      else if level rc = 1 then readRAID1Stripe ks rc stripeIndex fileID
      else if level rc = 5 then readRAID5Stripe ks rc stripeIndex fileID
      else if level rc = 10 then readRAID10Stripe ks rc stripeIndex fileID
      else Inr [])"

primrec read_stripes ::
  "string list \<Rightarrow> RAIDController \<Rightarrow> string \<Rightarrow> nat list \<Rightarrow> byte list \<Rightarrow> error + byte list" where
  "read_stripes ks rc fileID [] fullData = Inr fullData"
| "read_stripes ks rc fileID (stripeIndex # rest) fullData =
     (case readStripe ks rc stripeIndex fileID of
        Inl err \<Rightarrow> Inl (ReadStripeFailed stripeIndex err)
      | Inr stripeData \<Rightarrow> read_stripes ks rc fileID rest (fullData @ stripeData))"

text \<open>\<^verbatim>\<open>ReadFile\<close>: the source sets \<^verbatim>\<open>stripeCount := 2\<close>.\<close>

definition ReadFile :: "string list \<Rightarrow> RAIDController \<Rightarrow> string \<Rightarrow> error + byte list" where
  "ReadFile ks rc fileID =
     (let stripeCount = 2 in read_stripes ks rc fileID [0..<stripeCount] [])"


subsection \<open>The scheduler (\<^verbatim>\<open>raid_scheduler.go\<close>)\<close>

text \<open>
  \<open>AvgLatency\<close> is a \<^verbatim>\<open>time.Duration\<close> and \<open>LastErrorTime\<close> a \<^verbatim>\<open>time.Time\<close>, both counted in
  nanoseconds. \<open>SuccessRate\<close> is a \<^verbatim>\<open>float64\<close>; the model keeps the number it denotes
  (the scheduler never produces a NaN, and \<^verbatim>\<open>>\<close> on other \<^verbatim>\<open>float64\<close> values is \<open>>\<close> on
  the numbers).
\<close>

record DriverMetrics =
  Name :: string
  AvgLatency :: int
  SuccessRate :: real
  CurrentLoad :: int
  AvailableSpace :: int
  LastErrorTime :: int

text \<open>
  The literal \<^verbatim>\<open>0.8\<close> in \<^verbatim>\<open>metric.SuccessRate > 0.8\<close> is the \<^verbatim>\<open>float64\<close> nearest to
  \<open>8/10\<close>, which is \<open>3602879701896397 / 2^52\<close>, the least \<^verbatim>\<open>float64\<close> above \<open>8/10\<close>.
  \<^verbatim>\<open>5*time.Minute\<close> is 300 000 000 000 ns.
\<close>

definition rate_threshold :: real where
  "rate_threshold = 3602879701896397 / 4503599627370496"

definition five_minutes :: int where
  "five_minutes = 5 * 60 * 1000000000"

text \<open>
  The condition of \<^verbatim>\<open>getAvailableDrivers\<close>; \<open>now\<close> is the clock read by \<^verbatim>\<open>time.Since\<close>
  (a \<^verbatim>\<open>Duration\<close> saturates at about 292 years, which does not change the comparison).
\<close>

definition healthy :: "int \<Rightarrow> DriverMetrics \<Rightarrow> bool" where
  "healthy now metric \<longleftrightarrow>
     SuccessRate metric > rate_threshold \<and> now - LastErrorTime metric > five_minutes"

text \<open>
  \<^verbatim>\<open>getAvailableDrivers\<close>: \<open>ks\<close> is the order in which the loop ranges over
  \<^verbatim>\<open>rs.metrics\<close>.
\<close>

definition getAvailableDrivers ::
  "string list \<Rightarrow> (string \<rightharpoonup> DriverMetrics) \<Rightarrow> int \<Rightarrow> string list \<Rightarrow> string list" where
  "getAvailableDrivers ks metrics now excludeDrivers =
     filter (\<lambda>name. name \<notin> set excludeDrivers \<and>
                     (case metrics name of None \<Rightarrow> False | Some metric \<Rightarrow> healthy now metric))
       ks"

text \<open>
  The comparison functions handed to \<^verbatim>\<open>sort.Slice\<close>. The names that are sorted are keys of
  \<^verbatim>\<open>rs.metrics\<close>; for any other name the source dereferences nil.
\<close>

definition less_performance :: "(string \<rightharpoonup> DriverMetrics) \<Rightarrow> string \<Rightarrow> string \<Rightarrow> bool" where
  "less_performance metrics a b =
     (case (metrics a, metrics b) of
        (Some mi, Some mj) \<Rightarrow>
          (if AvgLatency mi \<noteq> AvgLatency mj then AvgLatency mi < AvgLatency mj
           else SuccessRate mi > SuccessRate mj)
      | _ \<Rightarrow> False)"

definition less_reliability :: "(string \<rightharpoonup> DriverMetrics) \<Rightarrow> string \<Rightarrow> string \<Rightarrow> bool" where
  "less_reliability metrics a b =
     (case (metrics a, metrics b) of
        (Some mi, Some mj) \<Rightarrow>
          (if SuccessRate mi \<noteq> SuccessRate mj then SuccessRate mi > SuccessRate mj
           else LastErrorTime mi < LastErrorTime mj)
      | _ \<Rightarrow> False)"

text \<open>
  \<^verbatim>\<open>Milliseconds()\<close> divides the nanoseconds by \<open>10^6\<close>, truncating towards zero.
\<close>

definition Milliseconds :: "int \<Rightarrow> int" where
  "Milliseconds d = sgn d * (\<bar>d\<bar> div 1000000)"

definition min_nat :: "nat \<Rightarrow> nat \<Rightarrow> nat" where
  "min_nat a b = (if a < b then a else b)"

text \<open>
  \<^verbatim>\<open>calculateScore\<close> returns 0 for a driver without metric and otherwise the \<^verbatim>\<open>float64\<close>
  \<^verbatim>\<open>0.3 * 1/(ms+1) + 0.4 * rate + 0.2 * 1/(load+1)\<close>, plus
  \<^verbatim>\<open>0.1 * min(space, 10 GiB) / 10 GiB\<close> when \<open>space > 0\<close>, of the four fields
  \<open>ms = AvgLatency.Milliseconds()\<close>, \<open>rate = SuccessRate\<close>, \<open>load = CurrentLoad\<close> and
  \<open>space = AvailableSpace\<close> of the metric. Which \<^verbatim>\<open>float64\<close> that is depends on the
  rounding of every operation and on whether a product is fused with the sum that follows,
  which Go leaves to the implementation; it is not the number that exact arithmetic gives,
  and two drivers can come in the other order. So the expression is the argument
  \<open>formula\<close>, a function from the four fields to the score. Scores are compared only;
  they are taken in any linear order with a zero (the \<^verbatim>\<open>float64\<close> values other than NaN
  form one, and the expression yields no NaN).
\<close>

type_synonym 's formula = "int \<Rightarrow> real \<Rightarrow> int \<Rightarrow> int \<Rightarrow> 's"

definition calculateScore ::
  "'s formula \<Rightarrow> (string \<rightharpoonup> DriverMetrics) \<Rightarrow> string \<Rightarrow> 's::{linorder,zero}" where
  "calculateScore formula metrics driverName =
     (case metrics driverName of
        None \<Rightarrow> 0
      | Some metric \<Rightarrow>
          formula (Milliseconds (AvgLatency metric)) (SuccessRate metric)
            (CurrentLoad metric) (AvailableSpace metric))"

definition less_score ::
  "('s::{linorder,zero}) formula \<Rightarrow> (string \<rightharpoonup> DriverMetrics) \<Rightarrow> string \<Rightarrow> string \<Rightarrow> bool" where
  "less_score formula metrics a b \<longleftrightarrow>
     calculateScore formula metrics a > calculateScore formula metrics b"

text \<open>
  \<^verbatim>\<open>sort.Slice\<close> is library code and not stable: it is the argument \<open>srt\<close> of the
  selection functions. \<open>sort_by\<close> below is one sorting function, by insertion, which
  keeps elements that compare equal in their order; on a slice as short as the five names
  of the examples \<^verbatim>\<open>sort.Slice\<close> is such an insertion sort too.
\<close>

type_synonym sorter = "(string \<Rightarrow> string \<Rightarrow> bool) \<Rightarrow> string list \<Rightarrow> string list"

fun insert_by :: "('a \<Rightarrow> 'a \<Rightarrow> bool) \<Rightarrow> 'a \<Rightarrow> 'a list \<Rightarrow> 'a list" where
  "insert_by lt x [] = [x]"
| "insert_by lt x (y # ys) = (if lt y x then y # insert_by lt x ys else x # y # ys)"

definition sort_by :: "('a \<Rightarrow> 'a \<Rightarrow> bool) \<Rightarrow> 'a list \<Rightarrow> 'a list" where
  "sort_by lt xs = foldr (insert_by lt) xs []"

text \<open>
  What is assumed of \<^verbatim>\<open>sort.Slice\<close>: it permutes the slice (\<open>permuting\<close>), and for the
  comparison \<open>lt\<close> no element of the result is before one that it must follow
  (\<open>sorting\<close>).
\<close>

definition permuting :: "sorter \<Rightarrow> bool" where
  "permuting srt \<longleftrightarrow> (\<forall>lt xs. mset (srt lt xs) = mset xs)"


definition selectForRAID0 ::
  "sorter \<Rightarrow> (string \<rightharpoonup> DriverMetrics) \<Rightarrow> string list \<Rightarrow> string list" where
  "selectForRAID0 srt metrics availableDrivers =
     (let sorted = srt (less_performance metrics) availableDrivers;
          count = min_nat 4 (length sorted)
      in take count sorted)"

definition selectForRAID1 ::
  "sorter \<Rightarrow> (string \<rightharpoonup> DriverMetrics) \<Rightarrow> string list \<Rightarrow> string list" where
  "selectForRAID1 srt metrics availableDrivers =
     (let sorted = srt (less_reliability metrics) availableDrivers;
          count = min_nat 2 (length sorted)
      in take count sorted)"

text \<open>
  \<^verbatim>\<open>selectForRAID5\<close>: the stripe index is a \<open>nat\<close> (a negative one makes the index
  expression panic). The swap moves the parity driver to the end of the list.
\<close>

definition selectForRAID5 ::
  "sorter \<Rightarrow> ('s::{linorder,zero}) formula \<Rightarrow> (string \<rightharpoonup> DriverMetrics) \<Rightarrow> string list \<Rightarrow> nat
     \<Rightarrow> string list" where
  "selectForRAID5 srt formula metrics availableDrivers stripeIndex =
     (if length availableDrivers < 3 then availableDrivers
      else let sorted = srt (less_score formula metrics) availableDrivers;
               count = min_nat 5 (length sorted);
               selected = take count sorted;
               parityIndex = stripeIndex mod length selected
           in if parityIndex < length selected - 1
              then selected[parityIndex := selected ! (length selected - 1),
                            length selected - 1 := selected ! parityIndex]
              else selected)"


definition selectForRAID10 ::
  "sorter \<Rightarrow> (string \<rightharpoonup> DriverMetrics) \<Rightarrow> string list \<Rightarrow> string list" where
  "selectForRAID10 srt metrics availableDrivers =
     (if length availableDrivers < 4 then availableDrivers
      else let sorted = srt (less_reliability metrics) availableDrivers;
               count = min_nat 8 (length sorted);
               count = (if count mod 2 \<noteq> 0 then count - 1 else count)
           in take count sorted)"

definition SelectDriversForStripe ::
  "sorter \<Rightarrow> ('s::{linorder,zero}) formula \<Rightarrow> string list \<Rightarrow> (string \<rightharpoonup> DriverMetrics) \<Rightarrow> int
     \<Rightarrow> int \<Rightarrow> nat \<Rightarrow> string list \<Rightarrow> string list" where
  "SelectDriversForStripe srt formula ks metrics now raidLevel stripeIndex excludeDrivers =
     (let availableDrivers = getAvailableDrivers ks metrics now excludeDrivers
      in if raidLevel = 0 then selectForRAID0 srt metrics availableDrivers
         else if raidLevel = 1 then selectForRAID1 srt metrics availableDrivers
         else if raidLevel = 5
         then selectForRAID5 srt formula metrics availableDrivers stripeIndex
         else if raidLevel = 10 then selectForRAID10 srt metrics availableDrivers
         else take (min_nat 4 (length availableDrivers)) availableDrivers)"

subsection \<open>The metadata catalog (\<^verbatim>\<open>manager.go\<close>)\<close>

record StripMetadata =
  StripIndex :: int
  DriverName :: string
  StorageID :: string
  StripSize :: int
  IsParity :: bool
  Checksum :: string
  Strip_CreatedAt :: int

record StripeMetadata =
  StripeIndex :: int
  Strips :: "StripMetadata list"
  ParityStrip :: "StripMetadata option"

record DriverInfo =
  Info_Name :: string
  Health :: string
  LastCheck :: int
  UsedSpace :: int
  TotalSpace :: int

record FileMetadata =
  FileID :: string
  FileName :: string
  FileSize :: int
  RAIDLevel :: int
  StripeSize :: int
  StripeCount :: int
  CreatedAt :: int
  UpdatedAt :: int
  Hash :: string
  Stripes :: "StripeMetadata list"
  DriverMap :: "(string \<times> DriverInfo) list"

record MetadataManager =
  basePath :: string
  metadata :: "string \<rightharpoonup> FileMetadata"
  driverHealth :: "string \<rightharpoonup> DriverInfo"

text \<open>
  What \<^verbatim>\<open>os.ReadFile\<close> followed by \<^verbatim>\<open>json.Unmarshal\<close> gives for a path: no such file, another
  read error, bytes that do not decode, or the decoded record. Both are library code; the
  file system is the argument \<open>fs\<close>. \<^verbatim>\<open>filepath.Join\<close> is taken without its
  normalisation of the path.
\<close>

datatype file_read = NotExist | ReadFailure | Unparsable | Decoded FileMetadata

definition filepath_Join :: "string \<Rightarrow> string \<Rightarrow> string" where
  "filepath_Join dir name = dir @ ''/'' @ name"

definition GetFileMetadata ::
  "MetadataManager \<Rightarrow> (string \<Rightarrow> file_read) \<Rightarrow> string
     \<Rightarrow> (error + FileMetadata) \<times> MetadataManager" where
  "GetFileMetadata mm fs fileID =
     (case metadata mm fileID of
        Some fm \<Rightarrow> (Inr fm, mm)
      | None \<Rightarrow>
          (let filePath = filepath_Join (basePath mm) (fileID @ ''.json'')
           in case fs filePath of
                NotExist \<Rightarrow> (Inl (FileNotExist fileID), mm)
              | ReadFailure \<Rightarrow> (Inl ReadMetadataFailed, mm)
              | Unparsable \<Rightarrow> (Inl ParseMetadataFailed, mm)
              | Decoded fm \<Rightarrow> (Inr fm, mm\<lparr>metadata := (metadata mm)(fileID \<mapsto> fm)\<rparr>)))"

text \<open>
  Modelled from the spec: the invariants of a metadata record (section 3) that the spec
  has \<open>Get\<close> validate; the sources define no validation. Stripe indices are dense from 0,
  block indices within a stripe are dense from 0, and a stripe has exactly one parity
  block iff the RAID level of the file is 5.
\<close>

definition dense_indices :: "FileMetadata \<Rightarrow> bool" where
  "dense_indices fm \<longleftrightarrow>
     map StripeIndex (Stripes fm) = map int [0..<length (Stripes fm)] \<and>
     list_all (\<lambda>stripe. map StripIndex (Strips stripe) = map int [0..<length (Strips stripe)])
       (Stripes fm)"

definition role_consistent :: "FileMetadata \<Rightarrow> bool" where
  "role_consistent fm \<longleftrightarrow>
     list_all (\<lambda>stripe. (length (filter IsParity (Strips stripe)) = 1) = (RAIDLevel fm = 5))
       (Stripes fm)"

definition valid_metadata :: "FileMetadata \<Rightarrow> bool" where
  "valid_metadata fm \<longleftrightarrow> dense_indices fm \<and> role_consistent fm"

subsection \<open>Example controllers\<close>

definition fresh :: driver where
  "fresh = \<lparr>blobs = Map.empty, put_ok = True, get_ok = True\<rparr>"

definition put_broken :: driver where
  "put_broken = \<lparr>blobs = Map.empty, put_ok = False, get_ok = True\<rparr>"

definition mirror2 :: RAIDController where
  "mirror2 = \<lparr>level = 1, drivers = [''a'' \<mapsto> put_broken, ''b'' \<mapsto> fresh],
               stripeSize = 4, stripeWidth = 2\<rparr>"

definition stripe2 :: RAIDController where
  "stripe2 = \<lparr>level = 0, drivers = [''a'' \<mapsto> fresh, ''b'' \<mapsto> fresh],
               stripeSize = 4, stripeWidth = 2\<rparr>"

definition parity3 :: RAIDController where
  "parity3 = \<lparr>level = 5, drivers = [''a'' \<mapsto> fresh, ''b'' \<mapsto> fresh, ''c'' \<mapsto> fresh],
               stripeSize = 8, stripeWidth = 3\<rparr>"

definition mirror4 :: RAIDController where
  "mirror4 = \<lparr>level = 10,
               drivers = [''a'' \<mapsto> put_broken, ''b'' \<mapsto> put_broken,
                          ''c'' \<mapsto> fresh, ''d'' \<mapsto> fresh],
               stripeSize = 16, stripeWidth = 4\<rparr>"



text \<open>Failure injection: from now on every download from the driver \<open>name\<close> fails.\<close>

definition fail_downloads :: "string \<Rightarrow> RAIDController \<Rightarrow> RAIDController" where
  "fail_downloads name rc =
     (case drivers rc name of
        None \<Rightarrow> rc
      | Some d \<Rightarrow> rc\<lparr>drivers := (drivers rc)(name \<mapsto> d\<lparr>get_ok := False\<rparr>)\<rparr>)"

text \<open>Writing a file and reading the returned file id back.\<close>

definition write_then_read ::
  "string list \<Rightarrow> RAIDController \<Rightarrow> int \<Rightarrow> string \<Rightarrow> byte list \<Rightarrow> error + byte list" where
  "write_then_read ks rc now fileName data =
     (case WriteFile ks rc now fileName data of
        (Inl err, rc') \<Rightarrow> Inl err
      | (Inr fileID, rc') \<Rightarrow> ReadFile ks rc' fileID)"

text \<open>Example metrics: \<open>b\<close> has a low success rate, \<open>c\<close> failed 100 seconds ago.\<close>

definition metric_of :: "string \<Rightarrow> int \<Rightarrow> real \<Rightarrow> int \<Rightarrow> DriverMetrics" where
  "metric_of name latency rate lastError =
     \<lparr>Name = name, AvgLatency = latency, SuccessRate = rate, CurrentLoad = 0,
      AvailableSpace = 0, LastErrorTime = lastError\<rparr>"

definition metrics4 :: "string \<rightharpoonup> DriverMetrics" where
  "metrics4 = [''a'' \<mapsto> metric_of ''a'' 100000000 1 0,
               ''b'' \<mapsto> metric_of ''b'' 100000000 (1 / 2) 0,
               ''c'' \<mapsto> metric_of ''c'' 100000000 1 900000000000,
               ''d'' \<mapsto> metric_of ''d'' 100000000 1 0]"



definition by_latency :: "int formula" where
  "by_latency ms rate load space = - ms"

text \<open>
  A catalog with an empty cache over a directory with three files: a record that breaks the
  invariants (RAID 5, one stripe with index 7, whose only block has index 3 and is no
  parity block), a file that does not decode and a file that cannot be read.
\<close>

definition bad_record :: FileMetadata where
  "bad_record =
     \<lparr>FileID = ''x'', FileName = ''x.bin'', FileSize = 4, RAIDLevel = 5, StripeSize = 4,
      StripeCount = 1, CreatedAt = 0, UpdatedAt = 0, Hash = [],
      Stripes = [\<lparr>StripeIndex = 7,
                  Strips = [\<lparr>StripIndex = 3, DriverName = ''a'', StorageID = ''x_s0_data_a'',
                             StripSize = 4, IsParity = False, Checksum = [],
                             Strip_CreatedAt = 0\<rparr>],
                  ParityStrip = None\<rparr>],
      DriverMap = []\<rparr>"

definition catalog0 :: MetadataManager where
  "catalog0 = \<lparr>basePath = ''meta'', metadata = Map.empty, driverHealth = Map.empty\<rparr>"

definition disk0 :: "string \<Rightarrow> file_read" where
  "disk0 path =
     (if path = ''meta/x.json'' then Decoded bad_record
      else if path = ''meta/y.json'' then Unparsable
      else if path = ''meta/z.json'' then ReadFailure
      else NotExist)"

section \<open>Properties\<close>

subsection \<open>Iteration\<close>



subsection \<open>Parity\<close>













subsection \<open>Splitting a stripe for RAID 5\<close>





subsection \<open>A fan-out in which every goroutine uploads to a driver of its own\<close>









subsection \<open>C3: the parity block\<close>



subsection \<open>Uploads of a fan-out\<close>

lemma upload_succeeds_iff: "upload_succeeds ds name bytes storageID = put_ok_at ds name"
  by (simp add: upload_succeeds_def put_ok_at_def UploadChunk_def split: option.splits)

lemma put_block_step:
  assumes "ds name = Some d"
  shows "\<exists>ds'. put_block name bytes storageID (ds, errs) =
            Inr (ds', if put_ok d then errs else errs @ [UploadFailed name DriverError]) \<and>
          dom ds' = dom ds \<and> (\<forall>n. put_ok_at ds' n = put_ok_at ds n)"
  using assms by (auto simp: put_block_def UploadChunk_def put_ok_at_def)

lemma put_blocks:
  "set ks \<subseteq> dom ds \<Longrightarrow>
   \<exists>ds'. for_each (\<lambda>name. put_block name (B name) (S name)) ks (ds, errs) =
            Inr (ds', errs @ map (\<lambda>n. UploadFailed n DriverError)
                             (filter (\<lambda>n. \<not> put_ok_at ds n) ks)) \<and>
          dom ds' = dom ds \<and> (\<forall>n. put_ok_at ds' n = put_ok_at ds n)"
proof (induction ks arbitrary: ds errs)
  case Nil
  then show ?case by simp
next
  case (Cons name ks)
  then obtain d where d: "ds name = Some d" by auto
  from put_block_step [of ds name d "B name" "S name" errs] d
  obtain ds1 where step: "put_block name (B name) (S name) (ds, errs) =
            Inr (ds1, if put_ok d then errs else errs @ [UploadFailed name DriverError])"
     and dom1: "dom ds1 = dom ds" and ok1: "\<forall>n. put_ok_at ds1 n = put_ok_at ds n"
    by blast
  have "set ks \<subseteq> dom ds1" using Cons.prems dom1 by simp
  from Cons.IH [OF this, of "if put_ok d then errs else errs @ [UploadFailed name DriverError]"]
  obtain ds2 where rest: "for_each (\<lambda>name. put_block name (B name) (S name)) ks
         (ds1, if put_ok d then errs else errs @ [UploadFailed name DriverError]) =
       Inr (ds2, (if put_ok d then errs else errs @ [UploadFailed name DriverError]) @
                 map (\<lambda>n. UploadFailed n DriverError) (filter (\<lambda>n. \<not> put_ok_at ds1 n) ks))"
    and dom2: "dom ds2 = dom ds1" and ok2: "\<forall>n. put_ok_at ds2 n = put_ok_at ds1 n"
    by blast
  have okd: "put_ok_at ds name = put_ok d" using d by (simp add: put_ok_at_def)
  have "for_each (\<lambda>name. put_block name (B name) (S name)) (name # ks) (ds, errs) =
      Inr (ds2, errs @ map (\<lambda>n. UploadFailed n DriverError)
                             (filter (\<lambda>n. \<not> put_ok_at ds n) (name # ks)))"
    using step rest ok1 okd by simp
  then show ?case using dom1 dom2 ok1 ok2 by auto
qed

subsection \<open>C4: the write rule of RAID 1\<close>

text \<open>
  Claim C4. \<^verbatim>\<open>writeRAID1Stripe\<close> returns nil iff at least one of the uploads, one per
  driver, succeeds, and returns an error iff every upload fails. (An upload to a driver
  fails or succeeds whatever was uploaded before, so the uploads are judged on the
  drivers as they are at the call.)
\<close>

theorem writeRAID1Stripe_success_rule:
  assumes "range_order (drivers rc) ks"
  shows "(fst (writeRAID1Stripe ks rc stripeIndex data fileID) = None \<longleftrightarrow>
           (\<exists>name \<in> set ks.
              upload_succeeds (drivers rc) name data (storageID_RAID1 fileID stripeIndex name))) \<and>
         (fst (writeRAID1Stripe ks rc stripeIndex data fileID) \<noteq> None \<longleftrightarrow>
           (\<forall>name \<in> set ks.
              \<not> upload_succeeds (drivers rc) name data (storageID_RAID1 fileID stripeIndex name)))"
proof -
  have sub: "set ks \<subseteq> dom (drivers rc)" using assms by (simp add: range_order_def)
  from put_blocks [OF sub, of "\<lambda>name. data" "storageID_RAID1 fileID stripeIndex" "[]"]
  obtain ds' where loop: "for_each (raid1_put stripeIndex data fileID) ks (drivers rc, []) =
      Inr (ds', map (\<lambda>n. UploadFailed n DriverError)
                  (filter (\<lambda>n. \<not> put_ok_at (drivers rc) n) ks))"
    unfolding raid1_put_def by auto
  have count: "length (filter (\<lambda>n. \<not> put_ok_at (drivers rc) n) ks) +
               length (filter (put_ok_at (drivers rc)) ks) = length ks"
    using sum_length_filter_compl [of "put_ok_at (drivers rc)" ks] by simp
  have "fst (writeRAID1Stripe ks rc stripeIndex data fileID) = None \<longleftrightarrow>
        length (filter (put_ok_at (drivers rc)) ks) \<noteq> 0"
    using loop count by (auto simp: writeRAID1Stripe_def Let_def)
  also have "\<dots> \<longleftrightarrow> (\<exists>name \<in> set ks. put_ok_at (drivers rc) name)"
    by (simp add: filter_empty_conv)
  finally show ?thesis by (auto simp: upload_succeeds_iff)
qed

theorem writeRAID1Stripe_success_rule_witness:
  "range_order (drivers mirror2) [''a'', ''b''] \<and>
   fst (writeRAID1Stripe [''a'', ''b''] mirror2 0 [104, 105] ''f'') = None \<and>
   upload_succeeds (drivers mirror2) ''b'' [104, 105] (storageID_RAID1 ''f'' 0 ''b'') \<and>
   \<not> upload_succeeds (drivers mirror2) ''a'' [104, 105] (storageID_RAID1 ''f'' 0 ''a'')"
proof -
  have r: "range_order (drivers mirror2) [''a'', ''b'']"
    by (auto simp: range_order_def mirror2_def)
  have b: "upload_succeeds (drivers mirror2) ''b'' [104, 105] (storageID_RAID1 ''f'' 0 ''b'')"
    by (simp add: upload_succeeds_def mirror2_def fresh_def UploadChunk_def)
  have a: "\<not> upload_succeeds (drivers mirror2) ''a'' [104, 105] (storageID_RAID1 ''f'' 0 ''a'')"
    by (simp add: upload_succeeds_def mirror2_def put_broken_def UploadChunk_def)
  from writeRAID1Stripe_success_rule [OF r, of 0 "[104, 105]" "''f''"] r a b
  show ?thesis by auto
qed

subsection \<open>C1: reading back what was written\<close>

text \<open>
  Claim C1 says that \<^verbatim>\<open>ReadFile\<close> of the file id returned by \<^verbatim>\<open>WriteFile\<close> yields the
  payload when all drivers succeed. \<^verbatim>\<open>ReadFile\<close> reads two stripes whatever the file
  holds. Here a RAID 0 controller with two healthy drivers and stripe size 4, as
  \<^verbatim>\<open>NewRAIDController\<close> builds it, writes 12 bytes (three stripes) and reads back the first
  8 only; and it writes 4 bytes (one stripe) and fails to read them back, since stripe 1
  does not exist. Every range loop yields the drivers in the same order.
\<close>

theorem ReadFile_reads_two_stripes:
  "NewRAIDController 0 (drivers stripe2) 4 = Inr stripe2 \<and>
   range_order (drivers stripe2) [''a'', ''b''] \<and>
   fst (WriteFile [''a'', ''b''] stripe2 7 ''f'' [1, 2, 3, 4, 5, 6, 7, 8, 9, 10, 11, 12])
     = Inr ''file_f_7'' \<and>
   write_then_read [''a'', ''b''] stripe2 7 ''f'' [1, 2, 3, 4, 5, 6, 7, 8, 9, 10, 11, 12]
     = Inr [1, 2, 3, 4, 5, 6, 7, 8] \<and>
   write_then_read [''a'', ''b''] stripe2 7 ''f'' [1, 2, 3, 4]
     = Inl (ReadStripeFailed 1 StripeReadError)"
proof -
  have "NewRAIDController 0 (drivers stripe2) 4 = Inr stripe2"
    by (simp add: NewRAIDController_def stripe2_def)
  moreover have "range_order (drivers stripe2) [''a'', ''b'']"
    by (auto simp: range_order_def stripe2_def)
  moreover have
    "fst (WriteFile [''a'', ''b''] stripe2 7 ''f'' [1, 2, 3, 4, 5, 6, 7, 8, 9, 10, 11, 12])
       = Inr ''file_f_7''"
    by code_simp
  moreover have
    "write_then_read [''a'', ''b''] stripe2 7 ''f'' [1, 2, 3, 4, 5, 6, 7, 8, 9, 10, 11, 12]
       = Inr [1, 2, 3, 4, 5, 6, 7, 8]"
    by code_simp
  moreover have
    "write_then_read [''a'', ''b''] stripe2 7 ''f'' [1, 2, 3, 4]
       = Inl (ReadStripeFailed 1 StripeReadError)"
    by code_simp
  ultimately show ?thesis by blast
qed

subsection \<open>C2: a lost data block of RAID 5\<close>

text \<open>
  Claim C2 says that \<^verbatim>\<open>readRAID5Stripe\<close> rebuilds a single lost data block from the
  parity. Here three healthy drivers hold one stripe of the bytes 1 to 8: the parity on
  \<open>a\<close>, the data blocks on \<open>b\<close> and \<open>c\<close>. With all blocks there the stripe is read back;
  with the parity block lost it is read back too; with the data block on \<open>b\<close> lost,
  \<^verbatim>\<open>recoverRAID5Stripe\<close> returns its error for the recovery that is not written yet.
\<close>

theorem readRAID5Stripe_does_not_recover:
  "NewRAIDController 5 (drivers parity3) 8 = Inr parity3 \<and>
   (case WriteFile [''a'', ''b'', ''c''] parity3 7 ''f'' [1, 2, 3, 4, 5, 6, 7, 8] of
      (Inl err, rc') \<Rightarrow> Inl err
    | (Inr fileID, rc') \<Rightarrow> readRAID5Stripe [''a'', ''b'', ''c''] rc' 0 fileID)
     = Inr [1, 2, 3, 4, 5, 6, 7, 8] \<and>
   (case WriteFile [''a'', ''b'', ''c''] parity3 7 ''f'' [1, 2, 3, 4, 5, 6, 7, 8] of
      (Inl err, rc') \<Rightarrow> Inl err
    | (Inr fileID, rc') \<Rightarrow>
        readRAID5Stripe [''a'', ''b'', ''c''] (fail_downloads ''a'' rc') 0 fileID)
     = Inr [1, 2, 3, 4, 5, 6, 7, 8] \<and>
   (case WriteFile [''a'', ''b'', ''c''] parity3 7 ''f'' [1, 2, 3, 4, 5, 6, 7, 8] of
      (Inl err, rc') \<Rightarrow> Inl err
    | (Inr fileID, rc') \<Rightarrow>
        readRAID5Stripe [''a'', ''b'', ''c''] (fail_downloads ''b'' rc') 0 fileID)
     = Inl RecoveryNotImplemented"
proof -
  have "NewRAIDController 5 (drivers parity3) 8 = Inr parity3"
    by (simp add: NewRAIDController_def parity3_def)
  moreover have
    "(case WriteFile [''a'', ''b'', ''c''] parity3 7 ''f'' [1, 2, 3, 4, 5, 6, 7, 8] of
        (Inl err, rc') \<Rightarrow> Inl err
      | (Inr fileID, rc') \<Rightarrow> readRAID5Stripe [''a'', ''b'', ''c''] rc' 0 fileID)
       = Inr [1, 2, 3, 4, 5, 6, 7, 8]"
    by code_simp
  moreover have
    "(case WriteFile [''a'', ''b'', ''c''] parity3 7 ''f'' [1, 2, 3, 4, 5, 6, 7, 8] of
        (Inl err, rc') \<Rightarrow> Inl err
      | (Inr fileID, rc') \<Rightarrow>
          readRAID5Stripe [''a'', ''b'', ''c''] (fail_downloads ''a'' rc') 0 fileID)
       = Inr [1, 2, 3, 4, 5, 6, 7, 8]"
    by code_simp
  moreover have
    "(case WriteFile [''a'', ''b'', ''c''] parity3 7 ''f'' [1, 2, 3, 4, 5, 6, 7, 8] of
        (Inl err, rc') \<Rightarrow> Inl err
      | (Inr fileID, rc') \<Rightarrow>
          readRAID5Stripe [''a'', ''b'', ''c''] (fail_downloads ''b'' rc') 0 fileID)
       = Inl RecoveryNotImplemented"
    by code_simp
  ultimately show ?thesis by blast
qed

subsection \<open>C5: the write rule of RAID 10\<close>

text \<open>
  Claim C5 says that \<^verbatim>\<open>writeRAID10Stripe\<close> returns an error whenever both members of a
  mirror pair fail. The source compares the number of failed uploads with the number of
  pairs. Here four drivers form the pairs \<open>[a, b]\<close> and \<open>[c, d]\<close>, both uploads of
  the first pair fail, and the stripe write returns nil: two failures do not exceed two
  pairs.
\<close>

theorem writeRAID10Stripe_counts_failures:
  "NewRAIDController 10 (drivers mirror4) 16 = Inr mirror4 \<and>
   range_order (drivers mirror4) [''a'', ''b'', ''c'', ''d''] \<and>
   createMirrorPairs [''a'', ''b'', ''c'', ''d''] = [[''a'', ''b''], [''c'', ''d'']] \<and>
   \<not> put_ok_at (drivers mirror4) ''a'' \<and> \<not> put_ok_at (drivers mirror4) ''b'' \<and>
   fst (writeRAID10Stripe [''a'', ''b'', ''c'', ''d''] mirror4 0
          [0, 1, 2, 3, 4, 5, 6, 7, 8, 9, 10, 11, 12, 13, 14, 15] ''f'') = None"
proof -
  have "NewRAIDController 10 (drivers mirror4) 16 = Inr mirror4"
    by (simp add: NewRAIDController_def mirror4_def)
  moreover have "range_order (drivers mirror4) [''a'', ''b'', ''c'', ''d'']"
    by (auto simp: range_order_def mirror4_def)
  moreover have "\<not> put_ok_at (drivers mirror4) ''a''" "\<not> put_ok_at (drivers mirror4) ''b''"
    by (simp_all add: put_ok_at_def mirror4_def put_broken_def)
  moreover have
    "fst (writeRAID10Stripe [''a'', ''b'', ''c'', ''d''] mirror4 0
            [0, 1, 2, 3, 4, 5, 6, 7, 8, 9, 10, 11, 12, 13, 14, 15] ''f'') = None"
    by code_simp
  ultimately show ?thesis by simp
qed

subsection \<open>C10: which driver holds a block\<close>

text \<open>
  Claim C10 says that two calls of \<^verbatim>\<open>selectDriverByIndex\<close> (and of
  \<^verbatim>\<open>selectDriverForStrip\<close>) with the same indices return the same driver name. Both
  functions index the slice that a range loop over the map \<^verbatim>\<open>rc.drivers\<close> fills, and Go
  yields the keys of a map in an order that changes from one loop to the next. For the
  controller with the drivers \<open>a\<close> and \<open>b\<close>, both orders are orders of that map, and
  the same indices give \<open>a\<close> under one and \<open>b\<close> under the other.
\<close>

theorem selectDriver_depends_on_range_order:
  "range_order (drivers stripe2) [''a'', ''b''] \<and>
   range_order (drivers stripe2) [''b'', ''a''] \<and>
   selectDriverByIndex [''a'', ''b''] 0 = Inr ''a'' \<and>
   selectDriverByIndex [''b'', ''a''] 0 = Inr ''b'' \<and>
   selectDriverForStrip [''a'', ''b''] (stripeWidth stripe2) 0 0 = Inr ''a'' \<and>
   selectDriverForStrip [''b'', ''a''] (stripeWidth stripe2) 0 0 = Inr ''b''"
proof -
  have "range_order (drivers stripe2) [''a'', ''b'']"
       "range_order (drivers stripe2) [''b'', ''a'']"
    by (auto simp: range_order_def stripe2_def)
  then show ?thesis
    by (simp add: selectDriverByIndex_def selectDriverForStrip_def stripe2_def)
qed

subsection \<open>The chunks of a RAID 0 stripe\<close>













subsection \<open>C6: the chunks of RAID 0\<close>





subsection \<open>Selection returns available drivers\<close>

lemma mset_insert_by: "mset (insert_by lt x xs) = add_mset x (mset xs)"
  by (induction xs) auto

lemma mset_sort_by: "mset (sort_by lt xs) = mset xs"
  by (induction xs) (auto simp: sort_by_def mset_insert_by)

lemma permuting_sort_by: "permuting sort_by"
  by (simp add: permuting_def mset_sort_by)

lemma permuting_set: "permuting srt \<Longrightarrow> set (srt lt xs) = set xs"
  unfolding permuting_def by (metis mset_eq_setD)


lemma set_getAvailableDrivers:
  "set (getAvailableDrivers ks metrics now excludeDrivers) =
     {name \<in> set ks. name \<notin> set excludeDrivers \<and>
        (\<exists>metric. metrics name = Some metric \<and> healthy now metric)}"
  by (auto simp: getAvailableDrivers_def split: option.splits)

lemma set_selectForRAID5:
  assumes "permuting srt"
  shows "set (selectForRAID5 srt formula metrics available stripeIndex) \<subseteq> set available"
proof (cases "length available < 3")
  case True
  then show ?thesis by (simp add: selectForRAID5_def)
next
  case False
  define selected where
    "selected = take (min_nat 5 (length (srt (less_score formula metrics) available)))
                  (srt (less_score formula metrics) available)"
  have "set (srt (less_score formula metrics) available) = set available"
    using assms by (rule permuting_set)
  then have sub: "set selected \<subseteq> set available"
    unfolding selected_def using set_take_subset by fastforce
  have "set (selected[p := selected ! (length selected - 1),
                      length selected - 1 := selected ! p]) = set selected"
    if "p < length selected - 1" for p
    using that by (intro set_swap) auto
  with sub False show ?thesis
    unfolding selectForRAID5_def Let_def selected_def [symmetric] by auto
qed

lemma set_SelectDriversForStripe:
  assumes "permuting srt"
  shows "set (SelectDriversForStripe srt formula ks metrics now raidLevel stripeIndex
                excludeDrivers)
           \<subseteq> set (getAvailableDrivers ks metrics now excludeDrivers)"
proof -
  have s: "set (srt lt xs) = set xs" for lt xs
    using assms by (rule permuting_set)
  have t: "set (take n (srt lt xs)) \<subseteq> set xs" for n lt xs
    using set_take_subset [of n "srt lt xs"] s by simp
  have 0: "set (selectForRAID0 srt metrics xs) \<subseteq> set xs" for xs
    by (simp add: selectForRAID0_def Let_def t)
  have 1: "set (selectForRAID1 srt metrics xs) \<subseteq> set xs" for xs
    by (simp add: selectForRAID1_def Let_def t)
  have 10: "set (selectForRAID10 srt metrics xs) \<subseteq> set xs" for xs
    by (simp add: selectForRAID10_def Let_def t)
  show ?thesis
    unfolding SelectDriversForStripe_def Let_def
    using 0 1 10 set_selectForRAID5 [OF assms, where formula = formula and metrics = metrics]
      set_take_subset [of _ "getAvailableDrivers ks metrics now excludeDrivers"]
    by simp
qed

subsection \<open>C7: only eligible drivers are selected\<close>

text \<open>
  Claim C7. \<^verbatim>\<open>SelectDriversForStripe\<close> returns no driver whose success rate is at most
  0.8, none whose last error is five minutes old or less, and none of the exclusion list;
  and \<^verbatim>\<open>getAvailableDrivers\<close> holds exactly the drivers of \<^verbatim>\<open>rs.metrics\<close> for which the
  three conditions of the source hold (the rate above the \<^verbatim>\<open>float64\<close> that \<^verbatim>\<open>0.8\<close>
  denotes, the last error more than five minutes ago, not excluded). Of \<^verbatim>\<open>sort.Slice\<close>
  only that it permutes the slice is used.
\<close>

theorem SelectDriversForStripe_only_eligible:
  assumes "permuting srt"
    and "range_order metrics ks"
  shows "(\<forall>name \<in> set (SelectDriversForStripe srt formula ks metrics now raidLevel
                         stripeIndex excludeDrivers).
            name \<notin> set excludeDrivers \<and>
            (\<exists>metric. metrics name = Some metric \<and> SuccessRate metric > 8 / 10 \<and>
                      now - LastErrorTime metric > five_minutes)) \<and>
         (\<forall>name. name \<in> set (getAvailableDrivers ks metrics now excludeDrivers) \<longleftrightarrow>
            (\<exists>metric. metrics name = Some metric \<and> SuccessRate metric > rate_threshold \<and>
                      now - LastErrorTime metric > five_minutes \<and>
                      name \<notin> set excludeDrivers))"
proof -
  have thr: "rate_threshold > 8 / 10" by (simp add: rate_threshold_def)
  have ks: "name \<in> set ks \<longleftrightarrow> (\<exists>metric. metrics name = Some metric)" for name
    using assms(2) by (auto simp: range_order_def)
  have avail: "name \<in> set (getAvailableDrivers ks metrics now excludeDrivers) \<longleftrightarrow>
            (\<exists>metric. metrics name = Some metric \<and> SuccessRate metric > rate_threshold \<and>
                      now - LastErrorTime metric > five_minutes \<and>
                      name \<notin> set excludeDrivers)" for name
    using ks [of name] by (auto simp: set_getAvailableDrivers healthy_def)
  have "name \<notin> set excludeDrivers \<and>
        (\<exists>metric. metrics name = Some metric \<and> SuccessRate metric > 8 / 10 \<and>
                  now - LastErrorTime metric > five_minutes)"
    if "name \<in> set (SelectDriversForStripe srt formula ks metrics now raidLevel
                       stripeIndex excludeDrivers)" for name
  proof -
    from that set_SelectDriversForStripe [OF assms(1)]
    have "name \<in> set (getAvailableDrivers ks metrics now excludeDrivers)" by blast
    with avail thr show ?thesis by fastforce
  qed
  with avail show ?thesis by blast
qed

theorem SelectDriversForStripe_only_eligible_witness:
  "permuting sort_by \<and> range_order metrics4 [''a'', ''b'', ''c'', ''d''] \<and>
   SelectDriversForStripe sort_by by_latency [''a'', ''b'', ''c'', ''d''] metrics4
       1000000000000 1 0 [''d''] = [''a''] \<and>
   ''a'' \<notin> set [''d''] \<and>
   (\<exists>metric. metrics4 ''a'' = Some metric \<and> SuccessRate metric > 8 / 10 \<and>
             1000000000000 - LastErrorTime metric > five_minutes) \<and>
   getAvailableDrivers [''a'', ''b'', ''c'', ''d''] metrics4 1000000000000 [''d''] = [''a'']"
proof -
  have r: "range_order metrics4 [''a'', ''b'', ''c'', ''d'']"
    by (auto simp: range_order_def metrics4_def)
  have s: "SelectDriversForStripe sort_by by_latency [''a'', ''b'', ''c'', ''d''] metrics4
             1000000000000 1 0 [''d''] = [''a'']"
    by (simp add: SelectDriversForStripe_def getAvailableDrivers_def metrics4_def metric_of_def
        healthy_def rate_threshold_def five_minutes_def selectForRAID1_def sort_by_def
        min_nat_def)
  have g: "getAvailableDrivers [''a'', ''b'', ''c'', ''d''] metrics4 1000000000000 [''d'']
             = [''a'']"
    by (simp add: getAvailableDrivers_def metrics4_def metric_of_def healthy_def
        rate_threshold_def five_minutes_def)
  from SelectDriversForStripe_only_eligible
         [where srt = sort_by and formula = by_latency and metrics = metrics4
            and ks = "[''a'', ''b'', ''c'', ''d'']" and now = 1000000000000
            and raidLevel = 1 and stripeIndex = 0 and excludeDrivers = "[''d'']",
          OF permuting_sort_by r] r s g permuting_sort_by
  show ?thesis by simp
qed

subsection \<open>Sorting by score and the swap of \<^verbatim>\<open>selectForRAID5\<close>\<close>











subsection \<open>C8: the drivers of a RAID 5 stripe\<close>




subsection \<open>C9: loading a metadata record\<close>

text \<open>
  Claim C9 has \<^verbatim>\<open>GetFileMetadata\<close> validate a record loaded from the store and fail when
  it breaks the invariants. The source decodes the file and caches and returns whatever
  was decoded.

  As amended: \<^verbatim>\<open>GetFileMetadata\<close> returns the cached record when the file id is in the
  cache and leaves the catalog as it is. On a miss it reads the file of the id: it fails
  with the not-found error when the file does not exist, with a read error when the file
  cannot be read, with a parse error when the bytes do not decode, all three without a
  change of the cache; otherwise it caches the decoded record under the id and returns
  it, whatever the record holds.
\<close>

theorem GetFileMetadata_cases:
  "(metadata mm fileID = Some fm \<longrightarrow> GetFileMetadata mm fs fileID = (Inr fm, mm)) \<and>
   (metadata mm fileID = None \<longrightarrow>
      (fs (filepath_Join (basePath mm) (fileID @ ''.json'')) = NotExist \<longrightarrow>
         GetFileMetadata mm fs fileID = (Inl (FileNotExist fileID), mm)) \<and>
      (fs (filepath_Join (basePath mm) (fileID @ ''.json'')) = ReadFailure \<longrightarrow>
         GetFileMetadata mm fs fileID = (Inl ReadMetadataFailed, mm)) \<and>
      (fs (filepath_Join (basePath mm) (fileID @ ''.json'')) = Unparsable \<longrightarrow>
         GetFileMetadata mm fs fileID = (Inl ParseMetadataFailed, mm)) \<and>
      (fs (filepath_Join (basePath mm) (fileID @ ''.json'')) = Decoded fm \<longrightarrow>
         GetFileMetadata mm fs fileID =
           (Inr fm, mm\<lparr>metadata := (metadata mm)(fileID \<mapsto> fm)\<rparr>)))"
  by (simp add: GetFileMetadata_def Let_def)

theorem GetFileMetadata_cases_witness:
  "metadata catalog0 ''x'' = None \<and>
   disk0 (filepath_Join (basePath catalog0) (''x'' @ ''.json'')) = Decoded bad_record \<and>
   GetFileMetadata catalog0 disk0 ''x''
     = (Inr bad_record, catalog0\<lparr>metadata := (metadata catalog0)(''x'' \<mapsto> bad_record)\<rparr>) \<and>
   metadata (snd (GetFileMetadata catalog0 disk0 ''x'')) ''x'' = Some bad_record \<and>
   GetFileMetadata (snd (GetFileMetadata catalog0 disk0 ''x'')) disk0 ''x''
     = (Inr bad_record, snd (GetFileMetadata catalog0 disk0 ''x'')) \<and>
   disk0 (filepath_Join (basePath catalog0) (''y'' @ ''.json'')) = Unparsable \<and>
   GetFileMetadata catalog0 disk0 ''y'' = (Inl ParseMetadataFailed, catalog0) \<and>
   disk0 (filepath_Join (basePath catalog0) (''z'' @ ''.json'')) = ReadFailure \<and>
   GetFileMetadata catalog0 disk0 ''z'' = (Inl ReadMetadataFailed, catalog0) \<and>
   disk0 (filepath_Join (basePath catalog0) (''w'' @ ''.json'')) = NotExist \<and>
   GetFileMetadata catalog0 disk0 ''w'' = (Inl (FileNotExist ''w''), catalog0)"
proof -
  have m: "metadata catalog0 k = None" for k by (simp add: catalog0_def)
  have x: "disk0 (filepath_Join (basePath catalog0) (''x'' @ ''.json'')) = Decoded bad_record"
    and y: "disk0 (filepath_Join (basePath catalog0) (''y'' @ ''.json'')) = Unparsable"
    and z: "disk0 (filepath_Join (basePath catalog0) (''z'' @ ''.json'')) = ReadFailure"
    and w: "disk0 (filepath_Join (basePath catalog0) (''w'' @ ''.json'')) = NotExist"
    by (simp_all add: disk0_def filepath_Join_def catalog0_def)
  from GetFileMetadata_cases [of catalog0 "''x''" bad_record disk0] m x
  have 1: "GetFileMetadata catalog0 disk0 ''x''
     = (Inr bad_record, catalog0\<lparr>metadata := (metadata catalog0)(''x'' \<mapsto> bad_record)\<rparr>)"
    by simp
  then have c: "metadata (snd (GetFileMetadata catalog0 disk0 ''x'')) ''x'' = Some bad_record"
    by simp
  from GetFileMetadata_cases
         [of "snd (GetFileMetadata catalog0 disk0 ''x'')" "''x''" bad_record disk0] c
  have 2: "GetFileMetadata (snd (GetFileMetadata catalog0 disk0 ''x'')) disk0 ''x''
     = (Inr bad_record, snd (GetFileMetadata catalog0 disk0 ''x''))"
    by blast
  from GetFileMetadata_cases [of catalog0 "''y''" bad_record disk0] m y
  have 3: "GetFileMetadata catalog0 disk0 ''y'' = (Inl ParseMetadataFailed, catalog0)"
    by simp
  from GetFileMetadata_cases [of catalog0 "''z''" bad_record disk0] m z
  have 4: "GetFileMetadata catalog0 disk0 ''z'' = (Inl ReadMetadataFailed, catalog0)"
    by simp
  from GetFileMetadata_cases [of catalog0 "''w''" bad_record disk0] m w
  have 5: "GetFileMetadata catalog0 disk0 ''w'' = (Inl (FileNotExist ''w''), catalog0)"
    by simp
  from 1 2 3 4 5 c m x y z w show ?thesis by blast
qed

theorem GetFileMetadata_counterexample:
  "GetFileMetadata catalog0 disk0 ''x''
     = (Inr bad_record, catalog0\<lparr>metadata := (metadata catalog0)(''x'' \<mapsto> bad_record)\<rparr>) \<and>
   \<not> dense_indices bad_record \<and> \<not> role_consistent bad_record \<and> \<not> valid_metadata bad_record"
  by (simp add: GetFileMetadata_def Let_def catalog0_def disk0_def filepath_Join_def
        dense_indices_def role_consistent_def valid_metadata_def bad_record_def)

end
